theory Spec2Isabelle
  imports Complex_Main
begin

section \<open>Python values\<close>

text \<open>
  A Python \<open>str\<close> is a sequence of Unicode code points, so it is modelled as a list of
  code points. \<open>asc\<close> embeds an ASCII literal; the non-ASCII characters of the source's
  literals are written by their code point (U+00E1, U+00ED, U+2013).

  A Python \<open>float\<close> is modelled by a real number: rounding is not modelled, the
  arithmetic below is the exact arithmetic the source's expressions denote.
  A Python \<open>int\<close> is an \<open>int\<close>.
\<close>

type_synonym pystr = "nat list"

definition asc :: "string \<Rightarrow> pystr" where
  "asc s = map of_char s"

text \<open>The exceptions the modelled code can raise; all derive from \<open>Exception\<close>.\<close>

datatype py_error =
  KeyError | IndexError | TypeError | AttributeError | ValueError | OverflowError
  | RequestException | JSONDecodeError

section \<open>Onboarding helpers (app_calorias.py, lines 145-165)\<close>

subsection \<open>\<open>_fator_atividade\<close>\<close>

definition sedentario :: pystr where
  "sedentario = asc ''Sedent'' @ [0xE1] @ asc ''rio (pouco ou nenhum exerc'' @ [0xED] @ asc ''cio)''"

definition leve :: pystr where
  "leve = asc ''Leve (1'' @ [0x2013] @ asc ''3x/semana)''"

definition moderado :: pystr where
  "moderado = asc ''Moderado (3'' @ [0x2013] @ asc ''5x/semana)''"

definition alto :: pystr where
  "alto = asc ''Alto (6'' @ [0x2013] @ asc ''7x/semana)''"

definition atleta :: pystr where
  "atleta = asc ''Atleta/Extremo (2x/dia)''"

text \<open>The dict literal of \<open>_fator_atividade\<close>, in the order of the source.\<close>

definition fator_tabela :: "(pystr \<times> real) list" where
  "fator_tabela =
     [(sedentario, 1.2), (leve, 1.375), (moderado, 1.55), (alto, 1.725), (atleta, 1.9)]"

text \<open>\<open>{...}.get(txt, 1.2)\<close>: the value stored under the key, 1.2 when the key is absent.\<close>

definition fator_atividade :: "pystr \<Rightarrow> real" where
  "fator_atividade txt = (case map_of fator_tabela txt of Some v \<Rightarrow> v | None \<Rightarrow> 1.2)"

subsection \<open>\<open>_bmr_mifflin\<close> and \<open>_tdee\<close>\<close>

text \<open>
  \<^verbatim>\<open>s = 5 if sex == "Masculino" else -161
  return (10*kg) + (6.25*cm) - (5*anos) + s\<close>
\<close>

definition bmr_mifflin :: "real \<Rightarrow> real \<Rightarrow> int \<Rightarrow> pystr \<Rightarrow> real" where
  "bmr_mifflin kg cm anos sex =
     (let s = (if sex = asc ''Masculino'' then 5 else - 161 :: int)
      in (10 * kg) + (6.25 * cm) - real_of_int (5 * anos) + real_of_int s)"

definition tdee :: "real \<Rightarrow> real \<Rightarrow> int \<Rightarrow> pystr \<Rightarrow> pystr \<Rightarrow> real" where
  "tdee kg cm anos sex atividade_txt =
     bmr_mifflin kg cm anos sex * fator_atividade atividade_txt"

subsection \<open>\<open>_idade_from_dob\<close>\<close>

text \<open>The three fields of a \<open>datetime.date\<close> the function reads.\<close>

record date =
  year :: int
  month :: int
  day :: int

text \<open>Python's comparison of two pairs: lexicographic.\<close>

definition tuple_lt :: "int \<times> int \<Rightarrow> int \<times> int \<Rightarrow> bool" where
  "tuple_lt a b = (fst a < fst b \<or> (fst a = fst b \<and> snd a < snd b))"

text \<open>
  \<open>date.today()\<close> is the first argument. A missing date of birth is \<open>None\<close>; a
  \<open>date\<close> object is never falsy. The comparison's \<open>bool\<close> is subtracted as 0 or 1.
\<close>

definition idade_from_dob :: "date \<Rightarrow> date option \<Rightarrow> int" where
  "idade_from_dob today dob_opt =
     (case dob_opt of
        None \<Rightarrow> 30
      | Some dob \<Rightarrow>
          year today - year dob
            - (if tuple_lt (month today, day today) (month dob, day dob) then 1 else 0))"

section \<open>Target calories (plan tab, line 1799; onboarding step 4, lines 236-237)\<close>

text \<open>
  \<^verbatim>\<open>kcal_alvo = tdee_val * (1 + ajuste_percent / 100.0)\<close>
  The slider and the onboarding table both give \<open>ajuste_percent\<close> as an \<open>int\<close>; the
  division by \<open>100.0\<close> is float division.
\<close>

definition kcal_alvo :: "real \<Rightarrow> int \<Rightarrow> real" where
  "kcal_alvo tdee_val ajuste_percent = tdee_val * (1 + real_of_int ajuste_percent / 100)"

text \<open>
  Onboarding step 4: \<open>ajuste = {"Emagrecer": -20, "Ganhar massa": 15, "Manuten\<dots>": 0}[goal]\<close>,
  a subscript, so an unknown goal raises \<open>KeyError\<close>.
\<close>

definition ajuste_tabela :: "(pystr \<times> int) list" where
  "ajuste_tabela =
     [(asc ''Emagrecer'', - 20), (asc ''Ganhar massa'', 15),
      (asc ''Manuten'' @ [0xE7, 0xE3] @ asc ''o'', 0)]"

definition onboarding_kcal_alvo :: "real \<Rightarrow> pystr \<Rightarrow> py_error + real" where
  "onboarding_kcal_alvo tdee_val goal =
     (case map_of ajuste_tabela goal of
        None \<Rightarrow> Inl KeyError
      | Some ajuste \<Rightarrow> Inr (kcal_alvo tdee_val ajuste))"

section \<open>Macro grams (plan tab, lines 1795-1842)\<close>

datatype calc_error = InvalidInput

text \<open>
  Modelled from the spec: \<open>kcal_to_macros_grams\<close> (the specification's
  \<open>macrosFromPercentages\<close>) is called by the plan tab at line 1803, and its definition is
  not among the source files. The specification: if the sum of the three percentages is
  zero the operation fails with \<open>InvalidInput\<close>; if the sum differs from 100 by more than
  0.01 each percentage is divided by the sum and multiplied by 100; grams are
  \<open>(target_kcal * pct/100) / kcal_per_gram\<close> with 4 kcal/g for protein and carbohydrate
  and 9 for fat; the percentages used are returned as the fourth component.
\<close>

definition kcal_to_macros_grams ::
  "real \<Rightarrow> real \<Rightarrow> real \<Rightarrow> real
     \<Rightarrow> calc_error + (real \<times> real \<times> real \<times> (real \<times> real \<times> real))" where
  "kcal_to_macros_grams target_kcal protein_pct carb_pct fat_pct =
     (let total = protein_pct + carb_pct + fat_pct in
      if total = 0 then Inl InvalidInput
      else
        let (pN, cN, fN) =
              (if \<bar>total - 100\<bar> > 0.01
               then (protein_pct / total * 100, carb_pct / total * 100, fat_pct / total * 100)
               else (protein_pct, carb_pct, fat_pct))
        in Inr ((target_kcal * (pN / 100)) / 4,
                (target_kcal * (cN / 100)) / 4,
                (target_kcal * (fN / 100)) / 9,
                (pN, cN, fN)))"

text \<open>
  Modelled from the spec: \<open>grams_from_gkg\<close> (the specification's \<open>macrosFromRatios\<close>) is
  called by the plan tab at line 1812, and its definition is not among the source files.
  The specification: \<open>protein_g = weight_kg * protein_g_per_kg\<close>,
  \<open>fat_g = weight_kg * fat_g_per_kg\<close>,
  \<open>remaining_kcal = target_kcal - (protein_g*4 + fat_g*9)\<close>,
  \<open>carb_g = max(0, remaining_kcal / 4)\<close>, and the result is
  \<open>(protein_g, carb_g, fat_g, leftover_kcal)\<close>; the call site reads the fourth
  component as \<open>kcal_rest\<close> and tests its sign.
\<close>

definition grams_from_gkg :: "real \<Rightarrow> real \<Rightarrow> real \<Rightarrow> real \<Rightarrow> real \<times> real \<times> real \<times> real" where
  "grams_from_gkg weight_kg protein_g_per_kg fat_g_per_kg target_kcal =
     (let protein_g = weight_kg * protein_g_per_kg;
          fat_g = weight_kg * fat_g_per_kg;
          remaining_kcal = target_kcal - (protein_g * 4 + fat_g * 9);
          carb_g = max 0 (remaining_kcal / 4)
      in (protein_g, carb_g, fat_g, remaining_kcal))"

text \<open>
  The one warning the plan tab appends to \<open>avisos\<close> (line 1816): the per-kg protein and
  fat targets leave no calories for carbohydrates.
\<close>

datatype aviso = CarboZerado

text \<open>
  What the plan tab computes from the macro inputs: the three gram values, their
  calorie equivalents (lines 1840-1842), the normalisation notice of \<open>st.info\<close> (the sum
  and the normalised percentages, when it is shown) and the list \<open>avisos\<close>.
\<close>

record plano_macros =
  prot_g :: real
  carb_g :: real
  gord_g :: real
  kcal_p :: real
  kcal_c :: real
  kcal_f :: real
  info :: "(real \<times> real \<times> real \<times> real) option"
  avisos :: "aviso list"

text \<open>
  Branch \<open>metodo_macros == "Por %"\<close>. The three \<open>st.number_input\<close> widgets are created
  with integer bounds, value and step, so the percentages are \<open>int\<close>s. An exception of
  \<open>kcal_to_macros_grams\<close> is not caught here.
\<close>

definition plano_por_pct :: "real \<Rightarrow> int \<Rightarrow> int \<Rightarrow> int \<Rightarrow> calc_error + plano_macros" where
  "plano_por_pct kcal p_pct c_pct f_pct =
     (case kcal_to_macros_grams kcal (real_of_int p_pct) (real_of_int c_pct) (real_of_int f_pct) of
        Inl e \<Rightarrow> Inl e
      | Inr (g_p, g_c, g_f, (pN, cN, fN)) \<Rightarrow>
          Inr \<lparr>prot_g = g_p, carb_g = g_c, gord_g = g_f,
               kcal_p = g_p * 4, kcal_c = g_c * 4, kcal_f = g_f * 9,
               info = (if \<bar>real_of_int (p_pct + c_pct + f_pct) - 100\<bar> > 0.01
                       then Some (real_of_int (p_pct + c_pct + f_pct), pN, cN, fN)
                       else None),
               avisos = []\<rparr>)"

text \<open>Branch \<open>"Por g/kg"\<close>: the warning is appended when \<open>kcal_rest < 0\<close>.\<close>

definition plano_por_gkg :: "real \<Rightarrow> real \<Rightarrow> real \<Rightarrow> real \<Rightarrow> plano_macros" where
  "plano_por_gkg peso p_gkg f_gkg kcal =
     (case grams_from_gkg peso p_gkg f_gkg kcal of
        (g_p, g_c, g_f, kcal_rest) \<Rightarrow>
          \<lparr>prot_g = g_p, carb_g = g_c, gord_g = g_f,
           kcal_p = g_p * 4, kcal_c = g_c * 4, kcal_f = g_f * 9,
           info = None,
           avisos = (if kcal_rest < 0 then [CarboZerado] else [])\<rparr>)"

section \<open>Food detection from a photo (lines 434-503)\<close>

subsection \<open>Floats with their special values\<close>

text \<open>
  The floats this function handles come out of \<open>json.loads\<close> and \<open>float()\<close>, which
  produce \<open>nan\<close>, \<open>inf\<close> and \<open>-inf\<close> as well as finite values. Only comparisons are
  made on them, and every comparison with \<open>nan\<close> is false.
\<close>

datatype pyfloat = Fin real | PosInf | NegInf | NaN

fun fl_lt :: "pyfloat \<Rightarrow> pyfloat \<Rightarrow> bool" where
  "fl_lt (Fin a) (Fin b) = (a < b)"
| "fl_lt (Fin a) PosInf = True"
| "fl_lt NegInf (Fin b) = True"
| "fl_lt NegInf PosInf = True"
| "fl_lt _ _ = False"

fun fl_le :: "pyfloat \<Rightarrow> pyfloat \<Rightarrow> bool" where
  "fl_le (Fin a) (Fin b) = (a \<le> b)"
| "fl_le NaN _ = False"
| "fl_le _ NaN = False"
| "fl_le NegInf _ = True"
| "fl_le _ PosInf = True"
| "fl_le _ _ = False"

text \<open>
  The builtins \<open>max(a, b)\<close> and \<open>min(a, b)\<close> keep the first argument unless the second
  is strictly greater (smaller).
\<close>

definition py_max :: "pyfloat \<Rightarrow> pyfloat \<Rightarrow> pyfloat" where
  "py_max a b = (if fl_lt a b then b else a)"

definition py_min :: "pyfloat \<Rightarrow> pyfloat \<Rightarrow> pyfloat" where
  "py_min a b = (if fl_lt b a then b else a)"

subsection \<open>JSON values as Python objects\<close>

text \<open>A \<open>dict\<close> is an association list read with \<open>map_of\<close>; its keys are strings.\<close>

datatype json =
  JNull | JBool bool | JInt int | JFloat pyfloat | JStr pystr
  | JList "json list" | JDict "(pystr \<times> json) list"

fun truthy :: "json \<Rightarrow> bool" where
  "truthy JNull = False"
| "truthy (JBool b) = b"
| "truthy (JInt n) = (n \<noteq> 0)"
| "truthy (JFloat x) = (x \<noteq> Fin 0)"
| "truthy (JStr s) = (s \<noteq> [])"
| "truthy (JList xs) = (xs \<noteq> [])"
| "truthy (JDict d) = (d \<noteq> [])"

text \<open>\<open>a or b\<close>\<close>

definition py_or :: "json \<Rightarrow> json \<Rightarrow> json" where
  "py_or a b = (if truthy a then a else b)"

text \<open>
  What the function takes from outside: the two secrets, the HTTP exchange
  (\<open>requests.post\<close>, \<open>raise_for_status\<close> and \<open>resp.json()\<close> as one step, given the key,
  the model and the image URL), \<open>json.loads\<close> on a string, \<open>float()\<close> on a string and
  \<open>str()\<close> on a value that is not a string.
\<close>

record env =
  api_key :: "pystr option"
  model_secret :: "pystr option"
  post :: "pystr \<Rightarrow> pystr \<Rightarrow> pystr \<Rightarrow> py_error + json"
  loads :: "pystr \<Rightarrow> py_error + json"
  float_of_str :: "pystr \<Rightarrow> py_error + pyfloat"
  str_of :: "json \<Rightarrow> pystr"

text \<open>Sequencing inside the \<open>try\<close> block: the first exception ends it.\<close>

definition then_do :: "py_error + 'a \<Rightarrow> ('a \<Rightarrow> py_error + 'b) \<Rightarrow> py_error + 'b" where
  "then_do m f = (case m of Inl e \<Rightarrow> Inl e | Inr x \<Rightarrow> f x)"

text \<open>\<open>v[k]\<close> for a string \<open>k\<close>, \<open>v[0]\<close>, and \<open>v.get(k)\<close>.\<close>

definition getitem_key :: "json \<Rightarrow> pystr \<Rightarrow> py_error + json" where
  "getitem_key v k =
     (case v of
        JDict d \<Rightarrow> (case map_of d k of None \<Rightarrow> Inl KeyError | Some x \<Rightarrow> Inr x)
      | _ \<Rightarrow> Inl TypeError)"

definition getitem_0 :: "json \<Rightarrow> py_error + json" where
  "getitem_0 v =
     (case v of
        JList xs \<Rightarrow> (case xs of [] \<Rightarrow> Inl IndexError | x # _ \<Rightarrow> Inr x)
      | JStr s \<Rightarrow> (case s of [] \<Rightarrow> Inl IndexError | ch # _ \<Rightarrow> Inr (JStr [ch]))
      | JDict d \<Rightarrow> Inl KeyError
      | _ \<Rightarrow> Inl TypeError)"

definition dict_get :: "json \<Rightarrow> pystr \<Rightarrow> py_error + json" where
  "dict_get v k =
     (case v of
        JDict d \<Rightarrow> Inr (case map_of d k of None \<Rightarrow> JNull | Some x \<Rightarrow> x)
      | _ \<Rightarrow> Inl AttributeError)"

text \<open>
  \<open>float(v)\<close>. An \<open>int\<close> converts unless it rounds to \<open>2 ^ 1024\<close> or beyond
  (\<open>OverflowError\<close>); the rounding of a large \<open>int\<close> is not modelled.
\<close>

definition py_float :: "env \<Rightarrow> json \<Rightarrow> py_error + pyfloat" where
  "py_float env v =
     (case v of
        JFloat x \<Rightarrow> Inr x
      | JInt n \<Rightarrow>
          (if \<bar>n\<bar> < 2 ^ 1024 - 2 ^ 970 then Inr (Fin (real_of_int n)) else Inl OverflowError)
      | JBool b \<Rightarrow> Inr (Fin (if b then 1 else 0))
      | JStr s \<Rightarrow> float_of_str env s
      | _ \<Rightarrow> Inl TypeError)"

definition py_str :: "env \<Rightarrow> json \<Rightarrow> pystr" where
  "py_str env v = (case v of JStr s \<Rightarrow> s | _ \<Rightarrow> str_of env v)"

text \<open>\<open>str.strip()\<close> removes the code points for which \<open>str.isspace\<close> holds, at both ends.\<close>

definition isspace :: "nat \<Rightarrow> bool" where
  "isspace c =
     ((9 \<le> c \<and> c \<le> 13) \<or> (28 \<le> c \<and> c \<le> 32) \<or> c = 133 \<or> c = 160 \<or> c = 5760
      \<or> (8192 \<le> c \<and> c \<le> 8202) \<or> c = 8232 \<or> c = 8233 \<or> c = 8239 \<or> c = 8287
      \<or> c = 12288)"

definition strip :: "pystr \<Rightarrow> pystr" where
  "strip s = rev (dropWhile isspace (rev (dropWhile isspace s)))"

text \<open>
  \<open>re.search\<close> with \<open>flags=re.S\<close> for the pattern "an opening brace, any characters, a
  closing brace", as the text of \<open>group(0)\<close>: from the first opening brace (code point
  123) to the last closing brace (125) after it.
\<close>

definition re_search :: "pystr \<Rightarrow> pystr option" where
  "re_search s =
     (case dropWhile (\<lambda>c. c \<noteq> 123) s of
        [] \<Rightarrow> None
      | b # body \<Rightarrow>
          (if 125 \<in> set body
           then Some (b # rev (dropWhile (\<lambda>c. c \<noteq> 125) (rev body)))
           else None))"

subsection \<open>\<open>ai_detect_foods_from_image_openrouter\<close>\<close>

text \<open>
  The inner \<open>try\<close>: \<open>json.loads(content)\<close>; on any exception the regular expression is
  tried, and its match is loaded, or \<open>parsed = {}\<close> without a match. A \<open>content\<close> that
  is not a string makes \<open>json.loads\<close> and then \<open>re.search\<close> raise \<open>TypeError\<close>.
\<close>

definition parse_content :: "env \<Rightarrow> json \<Rightarrow> py_error + json" where
  "parse_content env content =
     (case content of
        JStr s \<Rightarrow>
          (case loads env s of
             Inr parsed \<Rightarrow> Inr parsed
           | Inl _ \<Rightarrow>
               (case re_search s of
                  Some m \<Rightarrow> loads env m
                | None \<Rightarrow> Inr (JDict [])))
      | _ \<Rightarrow> Inl TypeError)"

record food_item =
  food :: pystr
  grams :: pyfloat
  confidence :: pyfloat

text \<open>
  One pass of the \<open>for\<close> loop: \<open>None\<close> when the name is empty and nothing is appended.
  \<^verbatim>\<open>food = str(it.get("food") or "").strip()
  grams = float(it.get("grams") or 0)
  conf  = float(it.get("confidence") or 0)
  if food:
      out.append({"food": food, "grams": max(0.0, grams),
                  "confidence": max(0.0, min(conf, 1.0))})\<close>
\<close>

definition detect_item :: "env \<Rightarrow> json \<Rightarrow> py_error + food_item option" where
  "detect_item env it =
     then_do (dict_get it (asc ''food'')) (\<lambda>fv.
       let food = strip (py_str env (py_or fv (JStr []))) in
     then_do (dict_get it (asc ''grams'')) (\<lambda>gv.
     then_do (py_float env (py_or gv (JInt 0))) (\<lambda>grams.
     then_do (dict_get it (asc ''confidence'')) (\<lambda>cv.
     then_do (py_float env (py_or cv (JInt 0))) (\<lambda>conf.
       Inr (if food \<noteq> []
            then Some \<lparr>food = food, grams = py_max (Fin 0) grams,
                       confidence = py_max (Fin 0) (py_min conf (Fin 1))\<rparr>
            else None))))))"

fun detect_loop :: "env \<Rightarrow> json list \<Rightarrow> food_item list \<Rightarrow> py_error + food_item list" where
  "detect_loop env [] out = Inr out"
| "detect_loop env (it # its) out =
     (case detect_item env it of
        Inl e \<Rightarrow> Inl e
      | Inr None \<Rightarrow> detect_loop env its out
      | Inr (Some x) \<Rightarrow> detect_loop env its (out @ [x]))"

text \<open>
  What \<open>for it in items\<close> iterates over: the elements of a list, the characters of a
  string, the keys of a dict; any other value is not iterable.
\<close>

definition py_iter :: "json \<Rightarrow> py_error + json list" where
  "py_iter v =
     (case v of
        JList xs \<Rightarrow> Inr xs
      | JStr s \<Rightarrow> Inr (map (\<lambda>ch. JStr [ch]) s)
      | JDict d \<Rightarrow> Inr (map (\<lambda>kv. JStr (fst kv)) d)
      | _ \<Rightarrow> Inl TypeError)"

text \<open>\<open>st.secrets.get("OPENROUTER_MODEL", "openai/gpt-4o-mini")\<close>\<close>

definition model :: "env \<Rightarrow> pystr" where
  "model env = (case model_secret env of None \<Rightarrow> asc ''openai/gpt-4o-mini'' | Some m \<Rightarrow> m)"

text \<open>
  The outer \<open>try\<close> up to the value of \<open>parsed\<close>: the request, then
  \<open>data["choices"][0]["message"]["content"]\<close>, then the parse.
\<close>

definition detect_parsed :: "env \<Rightarrow> pystr \<Rightarrow> pystr \<Rightarrow> py_error + json" where
  "detect_parsed env key image_url =
     then_do (post env key (model env) image_url) (\<lambda>data.
     then_do (getitem_key data (asc ''choices'')) (\<lambda>choices.
     then_do (getitem_0 choices) (\<lambda>choice.
     then_do (getitem_key choice (asc ''message'')) (\<lambda>message.
     then_do (getitem_key message (asc ''content'')) (\<lambda>content.
       parse_content env content)))))"

text \<open>The rest of the \<open>try\<close>: \<open>items = parsed.get("items") or []\<close> and the loop.\<close>

definition detect_items :: "env \<Rightarrow> json \<Rightarrow> py_error + food_item list" where
  "detect_items env parsed =
     then_do (dict_get parsed (asc ''items'')) (\<lambda>iv.
     then_do (py_iter (py_or iv (JList []))) (\<lambda>items.
       detect_loop env items []))"

text \<open>
  The whole function: \<open>[]\<close> when the key is missing or empty, and \<open>[]\<close> from the
  \<open>except Exception\<close> handler.
\<close>

definition ai_detect_foods_from_image_openrouter :: "env \<Rightarrow> pystr \<Rightarrow> food_item list" where
  "ai_detect_foods_from_image_openrouter env image_url =
     (case api_key env of
        None \<Rightarrow> []
      | Some key \<Rightarrow>
          if key = [] then []
          else (case then_do (detect_parsed env key image_url) (detect_items env) of
                  Inl e \<Rightarrow> []
                | Inr out \<Rightarrow> out))"

text \<open>
  The response was parsed into a JSON object that has a list under \<open>"items"\<close>.
\<close>

definition has_items_list :: "py_error + json \<Rightarrow> bool" where
  "has_items_list r =
     (case r of
        Inr (JDict d) \<Rightarrow>
          (case map_of d (asc ''items'') of Some (JList xs) \<Rightarrow> True | _ \<Rightarrow> False)
      | _ \<Rightarrow> False)"

definition item_ok :: "food_item \<Rightarrow> bool" where
  "item_ok x = (food x \<noteq> [] \<and> fl_le (Fin 0) (grams x)
                \<and> fl_le (Fin 0) (confidence x) \<and> fl_le (confidence x) (Fin 1))"

subsection \<open>A concrete exchange\<close>

text \<open>
  A parsed answer with three items (a padded name with out-of-range numbers, a blank
  name, a name with \<open>nan\<close> confidence), the response that carries a given content
  string, and an environment whose \<open>json.loads\<close> accepts exactly one text.
\<close>

definition ex_parsed :: json where
  "ex_parsed = JDict [(asc ''items'', JList
     [JDict [(asc ''food'', JStr (asc '' arroz '')), (asc ''grams'', JInt (- 5)),
             (asc ''confidence'', JFloat (Fin 1.7))],
      JDict [(asc ''food'', JStr (asc ''  '')), (asc ''grams'', JInt 3)],
      JDict [(asc ''food'', JStr (asc ''feij'' @ [0xE3] @ asc ''o'')),
             (asc ''grams'', JFloat (Fin 120.5)), (asc ''confidence'', JFloat NaN)]])]"

definition ex_data :: "pystr \<Rightarrow> json" where
  "ex_data content = JDict [(asc ''choices'', JList [JDict [(asc ''message'',
      JDict [(asc ''content'', JStr content)])]])]"

definition ex_env :: "pystr option \<Rightarrow> (py_error + json) \<Rightarrow> env" where
  "ex_env key response =
     \<lparr>api_key = key, model_secret = None,
      post = (\<lambda>k m u. response),
      loads = (\<lambda>s. if s = asc ''{J}'' then Inr ex_parsed else Inl JSONDecodeError),
      float_of_str = (\<lambda>s. Inl ValueError),
      str_of = (\<lambda>v. asc ''?'')\<rparr>"

section \<open>Properties of the onboarding helpers\<close>

lemma fator_atividade_keys:
  "fator_atividade sedentario = 1.2"
  "fator_atividade leve = 1.375"
  "fator_atividade moderado = 1.55"
  "fator_atividade alto = 1.725"
  "fator_atividade atleta = 1.9"
  by (simp_all add: fator_atividade_def fator_tabela_def sedentario_def leve_def
      moderado_def alto_def atleta_def asc_def)

lemma fator_atividade_default:
  assumes "txt \<notin> {sedentario, leve, moderado, alto, atleta}"
  shows "fator_atividade txt = 1.2"
  using assms by (simp add: fator_atividade_def fator_tabela_def)

text \<open>
  C1: for every weight, height, age and sex, \<open>_bmr_mifflin\<close> returns
  \<open>10*weight_kg + 6.25*height_cm - 5*age_years + sex_offset\<close>, where the offset is +5
  when the sex is "Masculino" and -161 otherwise.
\<close>

theorem bmr_mifflin_formula:
  "bmr_mifflin kg cm anos sex =
     10 * kg + 6.25 * cm - 5 * real_of_int anos
       + (if sex = asc ''Masculino'' then 5 else - 161)"
  by (simp add: bmr_mifflin_def)

text \<open>
  C2: \<open>_tdee\<close> returns the BMR times the multiplier of the activity level, the
  multipliers being 1.2, 1.375, 1.55, 1.725 and 1.9 for the five keys of the table, and
  1.2 for every string that is not a key of the table.
\<close>

theorem tdee_multiplier:
  "tdee kg cm anos sex txt = bmr_mifflin kg cm anos sex * fator_atividade txt
   \<and> fator_atividade sedentario = 1.2
   \<and> fator_atividade leve = 1.375
   \<and> fator_atividade moderado = 1.55
   \<and> fator_atividade alto = 1.725
   \<and> fator_atividade atleta = 1.9
   \<and> (txt \<notin> {sedentario, leve, moderado, alto, atleta} \<longrightarrow> fator_atividade txt = 1.2)"
  using fator_atividade_default [of "txt"]
  by (simp only: tdee_def fator_atividade_keys) simp

theorem tdee_multiplier_witness:
  "asc ''Correr'' \<notin> {sedentario, leve, moderado, alto, atleta}
   \<and> fator_atividade (asc ''Correr'') = 1.2
   \<and> tdee 75 175 30 (asc ''Masculino'') (asc ''Correr'') = 2038.5
   \<and> tdee 75 175 30 (asc ''Masculino'') moderado = 2633.0625"
proof -
  have notin: "asc ''Correr'' \<notin> {sedentario, leve, moderado, alto, atleta}"
    by (simp add: sedentario_def leve_def moderado_def alto_def atleta_def asc_def)
  have bmr: "bmr_mifflin 75 175 30 (asc ''Masculino'') = 1698.75"
    by (simp add: bmr_mifflin_def)
  from tdee_multiplier [of 75 175 30 "asc ''Masculino''" "asc ''Correr''"] notin
  have a: "fator_atividade (asc ''Correr'') = 1.2"
    and b: "tdee 75 175 30 (asc ''Masculino'') (asc ''Correr'')
            = bmr_mifflin 75 175 30 (asc ''Masculino'') * fator_atividade (asc ''Correr'')"
    by blast+
  from tdee_multiplier [of 75 175 30 "asc ''Masculino''" moderado]
  have c: "tdee 75 175 30 (asc ''Masculino'') moderado
           = bmr_mifflin 75 175 30 (asc ''Masculino'') * fator_atividade moderado"
    and d: "fator_atividade moderado = 1.55"
    by blast+
  show ?thesis using notin a b c d bmr by simp
qed

text \<open>
  C3: for every TDEE and every signed integer adjustment, inside or outside [-40, 40],
  the target is \<open>tdee * (1 + adjustment_percent/100)\<close>, with no clamping; 2000 at -20
  gives 1600 and 2000 at 15 gives 2300.
\<close>

theorem kcal_alvo_formula:
  "kcal_alvo tdee_val ajuste_percent = tdee_val * (1 + real_of_int ajuste_percent / 100)
   \<and> kcal_alvo 2000 (- 20) = 1600
   \<and> kcal_alvo 2000 15 = 2300
   \<and> kcal_alvo 2000 75 = 3500
   \<and> kcal_alvo 2000 (- 150) = - 1000"
  by (simp add: kcal_alvo_def)

lemma onboarding_kcal_alvo_goals:
  "onboarding_kcal_alvo t (asc ''Emagrecer'') = Inr (kcal_alvo t (- 20))"
  "onboarding_kcal_alvo t (asc ''Ganhar massa'') = Inr (kcal_alvo t 15)"
  "onboarding_kcal_alvo t (asc ''Manuten'' @ [0xE7, 0xE3] @ asc ''o'') = Inr (kcal_alvo t 0)"
  by (simp_all add: onboarding_kcal_alvo_def ajuste_tabela_def asc_def)

text \<open>
  C8 as the specification states it: the BMR of 75 kg, 175 cm, 30 years, "Masculino"
  would be 1674.75. The formula gives 750 + 1093.75 - 150 + 5.
\<close>

theorem bmr_example_not_1674_75:
  "bmr_mifflin 75 175 30 (asc ''Masculino'') \<noteq> 1674.75"
  by (simp add: bmr_mifflin_def)

text \<open>
  C8, amended: the BMR of 75 kg, 175 cm, 30 years, "Masculino" is 1698.75 kcal/day.
\<close>

theorem bmr_example_1698_75:
  "bmr_mifflin 75 175 30 (asc ''Masculino'') = 1698.75"
  by (simp add: bmr_mifflin_def)

text \<open>
  The age counts completed years: the \<open>n\<close>-th anniversary (the birthday's month and day
  in the year \<open>year dob + n\<close>) is today or earlier exactly for the \<open>n\<close> up to the age.
\<close>

lemma idade_from_dob_anniversaries:
  "n \<le> idade_from_dob today (Some dob) \<longleftrightarrow>
     (year dob + n < year today
      \<or> (year dob + n = year today
          \<and> (month dob < month today \<or> (month dob = month today \<and> day dob \<le> day today))))"
  by (auto simp: idade_from_dob_def tuple_lt_def)

text \<open>
  C10: without a date of birth the age is 30; with one it is the difference of the
  years, less one exactly when today's (month, day) precedes the birthday's.
\<close>

theorem idade_from_dob_completed_years:
  "idade_from_dob today None = 30
   \<and> idade_from_dob today (Some dob) =
       (if month today < month dob \<or> (month today = month dob \<and> day today < day dob)
        then year today - year dob - 1
        else year today - year dob)"
  by (simp add: idade_from_dob_def tuple_lt_def)

theorem idade_from_dob_completed_years_witness:
  "idade_from_dob \<lparr>year = 2026, month = 11, day = 4\<rparr> None = 30
   \<and> idade_from_dob \<lparr>year = 2026, month = 11, day = 4\<rparr>
        (Some \<lparr>year = 1990, month = 12, day = 25\<rparr>) = 35
   \<and> idade_from_dob \<lparr>year = 2026, month = 11, day = 4\<rparr>
        (Some \<lparr>year = 1990, month = 11, day = 4\<rparr>) = 36"
  using idade_from_dob_completed_years
          [of "\<lparr>year = 2026, month = 11, day = 4\<rparr>" "\<lparr>year = 1990, month = 12, day = 25\<rparr>"]
        idade_from_dob_completed_years
          [of "\<lparr>year = 2026, month = 11, day = 4\<rparr>" "\<lparr>year = 1990, month = 11, day = 4\<rparr>"]
  by simp

section \<open>Properties of the macro grams\<close>








text \<open>
  C4: for every target and every triple of percentages with a positive sum, each
  percentage is divided by the sum and multiplied by 100 whenever the sum differs from
  100 by more than 0.01, the grams are \<open>(target_kcal * pct/100) / kcal_per_gram\<close> with
  4 kcal/g for protein and carbohydrate and 9 for fat, and the percentages used are
  returned. For 2000 kcal at 30, 40, 30 the grams are 150, 200 and 200/3 (66.7 to one
  decimal), and the plan tab shows no normalisation notice.
\<close>

theorem kcal_to_macros_grams_percentages:
  "(0 < p + c + f \<longrightarrow>
      kcal_to_macros_grams kcal p c f =
        (let s = p + c + f;
             pN = (if \<bar>s - 100\<bar> > 0.01 then p / s * 100 else p);
             cN = (if \<bar>s - 100\<bar> > 0.01 then c / s * 100 else c);
             fN = (if \<bar>s - 100\<bar> > 0.01 then f / s * 100 else f)
         in Inr (kcal * (pN / 100) / 4, kcal * (cN / 100) / 4, kcal * (fN / 100) / 9,
                 (pN, cN, fN))))
   \<and> kcal_to_macros_grams 2000 30 40 30 = Inr (150, 200, 200 / 3, (30, 40, 30))
   \<and> \<bar>200 / 3 - 66.7\<bar> < (0.05 :: real)
   \<and> (\<exists>r. plano_por_pct 2000 30 40 30 = Inr r \<and> info r = None
          \<and> prot_g r = 150 \<and> carb_g r = 200 \<and> gord_g r = 200 / 3)"
  by (simp add: kcal_to_macros_grams_def plano_por_pct_def Let_def)

theorem kcal_to_macros_grams_percentages_witness:
  "(0 :: real) < 30 + 30 + 30
   \<and> kcal_to_macros_grams 1800 30 30 30 = Inr (150, 150, 200 / 3, (100 / 3, 100 / 3, 100 / 3))"
  using kcal_to_macros_grams_percentages [of 30 30 30 1800]
  by (simp add: Let_def)

text \<open>
  C5: when the three percentages sum to zero the operation fails with \<open>InvalidInput\<close>,
  whatever the target; so it does for 2000 kcal at 0, 0, 0, and the plan tab's
  percentage branch ends with that error.
\<close>

theorem zero_percentages_invalid_input:
  "(p + c + f = 0 \<longrightarrow> kcal_to_macros_grams kcal p c f = Inl InvalidInput)
   \<and> kcal_to_macros_grams 2000 0 0 0 = Inl InvalidInput
   \<and> (p_pct + c_pct + f_pct = 0 \<longrightarrow> plano_por_pct kcal p_pct c_pct f_pct = Inl InvalidInput)"
proof (intro conjI impI)
  assume "p_pct + c_pct + f_pct = 0"
  then have "real_of_int p_pct + real_of_int c_pct + real_of_int f_pct = 0"
    by linarith
  then show "plano_por_pct kcal p_pct c_pct f_pct = Inl InvalidInput"
    by (simp add: plano_por_pct_def kcal_to_macros_grams_def)
qed (simp_all add: kcal_to_macros_grams_def)

theorem zero_percentages_invalid_input_witness:
  "(0 :: real) + 0 + 0 = 0 \<and> kcal_to_macros_grams 1500 0 0 0 = Inl InvalidInput
   \<and> (0 :: int) + 0 + 0 = 0 \<and> plano_por_pct 1500 0 0 0 = Inl InvalidInput"
  using zero_percentages_invalid_input [of 0 0 0 1500 0 0 0]
  by simp

text \<open>
  C6: the carbohydrate grams are \<open>max(0, remaining_kcal/4)\<close> with
  \<open>remaining_kcal = target_kcal - (protein_g*4 + fat_g*9)\<close>; the remainder is returned
  with its sign, and whenever it is negative the plan tab reports the warning, with the
  carbohydrates at zero; it reports none otherwise. For 75 kg at 2.5 and 1.0 g/kg and
  1400 kcal: 187.5 g protein, 75 g fat, a remainder of -25, no carbohydrates, and the
  warning.
\<close>

theorem grams_from_gkg_budget_exceeded:
  "grams_from_gkg w p f kcal =
     (w * p, max 0 ((kcal - (w * p * 4 + w * f * 9)) / 4), w * f,
      kcal - (w * p * 4 + w * f * 9))
   \<and> (kcal - (w * p * 4 + w * f * 9) < 0 \<longrightarrow>
        carb_g (plano_por_gkg w p f kcal) = 0
        \<and> avisos (plano_por_gkg w p f kcal) = [CarboZerado])
   \<and> (\<not> kcal - (w * p * 4 + w * f * 9) < 0 \<longrightarrow> avisos (plano_por_gkg w p f kcal) = [])
   \<and> grams_from_gkg 75 2.5 1.0 1400 = (187.5, 0, 75, - 25)
   \<and> avisos (plano_por_gkg 75 2.5 1.0 1400) = [CarboZerado]"
  by (simp add: grams_from_gkg_def plano_por_gkg_def Let_def)

theorem grams_from_gkg_budget_exceeded_witness:
  "(1000 :: real) - (80 * 2 * 4 + 80 * 1 * 9) < 0
   \<and> grams_from_gkg 80 2 1 1000 = (160, 0, 80, - 360)
   \<and> carb_g (plano_por_gkg 80 2 1 1000) = 0
   \<and> avisos (plano_por_gkg 80 2 1 1000) = [CarboZerado]
   \<and> \<not> (2000 :: real) - (75 * 2 * 4 + 75 * 0.8 * 9) < 0
   \<and> grams_from_gkg 75 2 0.8 2000 = (150, 215, 60, 860)
   \<and> avisos (plano_por_gkg 75 2 0.8 2000) = []"
  using grams_from_gkg_budget_exceeded [of 80 2 1 1000]
        grams_from_gkg_budget_exceeded [of 75 2 "0.8" 2000]
  by simp





section \<open>Properties of the food detection\<close>

text \<open>
  The clamps hold for every float, \<open>nan\<close> and the infinities included; the loop keeps
  them for every item it has appended.
\<close>

lemma then_do_simps [simp]:
  "then_do (Inl e) f = Inl e" "then_do (Inr x) f = f x"
  by (simp_all add: then_do_def)

lemma then_do_Inr: "then_do m f = Inr y \<Longrightarrow> \<exists>x. m = Inr x \<and> f x = Inr y"
  by (cases m) simp_all

lemma py_max_ge0: "fl_le (Fin 0) (py_max (Fin 0) g)"
  by (cases g) (simp_all add: py_max_def)

lemma py_clamp01:
  "fl_le (Fin 0) (py_max (Fin 0) (py_min c (Fin 1)))
   \<and> fl_le (py_max (Fin 0) (py_min c (Fin 1))) (Fin 1)"
  by (cases c) (simp_all add: py_max_def py_min_def)

lemma detect_item_ok: "detect_item env it = Inr (Some x) \<Longrightarrow> item_ok x"
  unfolding detect_item_def Let_def
  by (auto dest!: then_do_Inr simp: item_ok_def py_max_ge0 py_clamp01 split: if_splits)

lemma detect_loop_ok:
  "detect_loop env its out = Inr res \<Longrightarrow> \<forall>x\<in>set out. item_ok x \<Longrightarrow> \<forall>x\<in>set res. item_ok x"
proof (induction its arbitrary: out)
  case Nil
  then show ?case by simp
next
  case (Cons it its)
  show ?case
  proof (cases "detect_item env it")
    case (Inl e)
    with Cons.prems show ?thesis by simp
  next
    case (Inr r)
    show ?thesis
    proof (cases r)
      case None
      with Inr Cons show ?thesis by simp
    next
      case (Some x)
      with Inr have "item_ok x" by (simp add: detect_item_ok)
      with Cons.prems(2) have "\<forall>y\<in>set (out @ [x]). item_ok y" by simp
      moreover from Inr Some Cons.prems(1) have "detect_loop env its (out @ [x]) = Inr res" by simp
      ultimately show ?thesis by (rule Cons.IH[rotated])
    qed
  qed
qed

lemma detect_items_ok: "detect_items env parsed = Inr res \<Longrightarrow> \<forall>x\<in>set res. item_ok x"
  unfolding detect_items_def
  by (auto dest!: then_do_Inr dest: detect_loop_ok)

lemma all_items_ok: "\<forall>x\<in>set (ai_detect_foods_from_image_openrouter env url). item_ok x"
proof (cases "api_key env")
  case None
  then show ?thesis by (simp add: ai_detect_foods_from_image_openrouter_def)
next
  case (Some key)
  show ?thesis
  proof (cases "then_do (detect_parsed env key url) (detect_items env)")
    case (Inl e)
    with Some show ?thesis by (simp add: ai_detect_foods_from_image_openrouter_def)
  next
    case (Inr res)
    then obtain parsed where "detect_items env parsed = Inr res"
      by (auto dest: then_do_Inr)
    then have "\<forall>x\<in>set res. item_ok x" by (rule detect_items_ok)
    with Some Inr show ?thesis by (simp add: ai_detect_foods_from_image_openrouter_def)
  qed
qed

lemma detect_item_str: "detect_item env (JStr s) = Inl AttributeError"
  by (simp add: detect_item_def dict_get_def)

lemma detect_items_no_list:
  assumes "\<not> has_items_list (Inr parsed)"
  shows "(case detect_items env parsed of Inl e \<Rightarrow> [] | Inr res \<Rightarrow> res) = []"
proof (cases parsed)
  case (JDict d)
  show ?thesis
  proof (cases "map_of d (asc ''items'')")
    case None
    with JDict show ?thesis
      by (simp add: detect_items_def dict_get_def py_or_def py_iter_def)
  next
    case (Some v)
    with JDict assms have nl: "\<And>xs. v \<noteq> JList xs"
      by (auto simp: has_items_list_def)
    have dg: "dict_get parsed (asc ''items'') = Inr v"
      using JDict Some by (simp add: dict_get_def)
    show ?thesis
    proof (cases v)
      case (JStr s)
      then show ?thesis using dg
        by (cases s) (simp_all add: detect_items_def py_or_def py_iter_def detect_item_str)
    next
      case (JDict d')
      then show ?thesis using dg
        by (cases d') (simp_all add: detect_items_def py_or_def py_iter_def detect_item_str)
    next
      case (JList xs)
      with nl [of xs] show ?thesis by blast
    qed (use dg in \<open>simp_all add: detect_items_def py_or_def py_iter_def\<close>)
  qed
qed (simp_all add: detect_items_def dict_get_def)

lemma no_list_empty:
  assumes "api_key env = Some key" and "\<not> has_items_list (detect_parsed env key url)"
  shows "ai_detect_foods_from_image_openrouter env url = []"
proof (cases "detect_parsed env key url")
  case (Inl e)
  with assms(1) show ?thesis by (simp add: ai_detect_foods_from_image_openrouter_def)
next
  case (Inr parsed)
  with assms(2) have "\<not> has_items_list (Inr parsed)" by simp
  then have "(case detect_items env parsed of Inl e \<Rightarrow> [] | Inr res \<Rightarrow> res) = []"
    by (rule detect_items_no_list)
  with assms(1) Inr show ?thesis by (simp add: ai_detect_foods_from_image_openrouter_def)
qed

lemma post_fails_empty:
  assumes "api_key env = Some key" and "post env key (model env) url = Inl e"
  shows "ai_detect_foods_from_image_openrouter env url = []"
  using assms by (simp add: ai_detect_foods_from_image_openrouter_def detect_parsed_def)

text \<open>
  C9: every item of the returned list has a non-empty name, grams that are at least 0
  and a confidence between 0 and 1; and the list is empty whenever the API key is
  missing or empty, the HTTP exchange raises, or the response is not parsed into a JSON
  object with a list under "items". The function returns a list in every case.
\<close>

theorem ai_detect_items_clamped_or_empty:
  "(\<forall>x\<in>set (ai_detect_foods_from_image_openrouter env url).
      food x \<noteq> [] \<and> fl_le (Fin 0) (grams x)
      \<and> fl_le (Fin 0) (confidence x) \<and> fl_le (confidence x) (Fin 1))
   \<and> (api_key env = None \<or> api_key env = Some [] \<longrightarrow>
        ai_detect_foods_from_image_openrouter env url = [])
   \<and> (\<forall>key. api_key env = Some key \<and> (\<exists>e. post env key (model env) url = Inl e) \<longrightarrow>
        ai_detect_foods_from_image_openrouter env url = [])
   \<and> (\<forall>key. api_key env = Some key \<and> \<not> has_items_list (detect_parsed env key url) \<longrightarrow>
        ai_detect_foods_from_image_openrouter env url = [])"
proof (intro conjI allI impI)
  show "\<forall>x\<in>set (ai_detect_foods_from_image_openrouter env url).
      food x \<noteq> [] \<and> fl_le (Fin 0) (grams x)
      \<and> fl_le (Fin 0) (confidence x) \<and> fl_le (confidence x) (Fin 1)"
    using all_items_ok [of env url] by (simp add: item_ok_def)
next
  assume "api_key env = None \<or> api_key env = Some []"
  then show "ai_detect_foods_from_image_openrouter env url = []"
    by (auto simp: ai_detect_foods_from_image_openrouter_def)
next
  fix key assume "api_key env = Some key \<and> (\<exists>e. post env key (model env) url = Inl e)"
  then show "ai_detect_foods_from_image_openrouter env url = []"
    by (auto intro: post_fails_empty)
next
  fix key assume "api_key env = Some key \<and> \<not> has_items_list (detect_parsed env key url)"
  then show "ai_detect_foods_from_image_openrouter env url = []"
    by (auto intro: no_list_empty)
qed

lemmas ai_detect_defs =
  ai_detect_foods_from_image_openrouter_def ex_env_def ex_data_def ex_parsed_def
  detect_parsed_def detect_items_def getitem_key_def getitem_0_def parse_content_def
  re_search_def dict_get_def py_iter_def py_or_def detect_item_def py_float_def py_str_def
  strip_def isspace_def py_max_def py_min_def asc_def model_def has_items_list_def Let_def

theorem ai_detect_items_clamped_or_empty_witness:
  "ai_detect_foods_from_image_openrouter
     (ex_env (Some (asc ''sk'')) (Inr (ex_data (asc ''Itens: {J} fim'')))) (asc ''u'')
   = [\<lparr>food = asc ''arroz'', grams = Fin 0, confidence = Fin 1\<rparr>,
      \<lparr>food = asc ''feij'' @ [0xE3] @ asc ''o'', grams = Fin 120.5, confidence = Fin 0\<rparr>]
   \<and> list_all (\<lambda>x. food x \<noteq> [] \<and> fl_le (Fin 0) (grams x)
                    \<and> fl_le (Fin 0) (confidence x) \<and> fl_le (confidence x) (Fin 1))
        (ai_detect_foods_from_image_openrouter
          (ex_env (Some (asc ''sk'')) (Inr (ex_data (asc ''Itens: {J} fim'')))) (asc ''u''))
   \<and> ai_detect_foods_from_image_openrouter
        (ex_env None (Inr (ex_data (asc ''{J}'')))) (asc ''u'') = []
   \<and> ai_detect_foods_from_image_openrouter
        (ex_env (Some (asc ''sk'')) (Inl RequestException)) (asc ''u'') = []
   \<and> \<not> has_items_list (detect_parsed
          (ex_env (Some (asc ''sk'')) (Inr (ex_data (asc ''nada'')))) (asc ''sk'') (asc ''u''))
   \<and> ai_detect_foods_from_image_openrouter
        (ex_env (Some (asc ''sk'')) (Inr (ex_data (asc ''nada'')))) (asc ''u'') = []"
proof -
  let ?ok = "ex_env (Some (asc ''sk'')) (Inr (ex_data (asc ''Itens: {J} fim'')))"
  let ?nokey = "ex_env None (Inr (ex_data (asc ''{J}'')))"
  let ?down = "ex_env (Some (asc ''sk'')) (Inl RequestException)"
  let ?nada = "ex_env (Some (asc ''sk'')) (Inr (ex_data (asc ''nada'')))"
  have run: "ai_detect_foods_from_image_openrouter ?ok (asc ''u'')
      = [\<lparr>food = asc ''arroz'', grams = Fin 0, confidence = Fin 1\<rparr>,
         \<lparr>food = asc ''feij'' @ [0xE3] @ asc ''o'', grams = Fin 120.5, confidence = Fin 0\<rparr>]"
    by (simp add: ai_detect_defs)
  have all: "list_all (\<lambda>x. food x \<noteq> [] \<and> fl_le (Fin 0) (grams x)
                    \<and> fl_le (Fin 0) (confidence x) \<and> fl_le (confidence x) (Fin 1))
        (ai_detect_foods_from_image_openrouter ?ok (asc ''u''))"
    unfolding list_all_iff
    using ai_detect_items_clamped_or_empty [of ?ok "asc ''u''"] by blast
  have k0: "api_key ?nokey = None \<or> api_key ?nokey = Some []"
    by (simp add: ex_env_def)
  have nokey: "ai_detect_foods_from_image_openrouter ?nokey (asc ''u'') = []"
    using ai_detect_items_clamped_or_empty [of ?nokey "asc ''u''"] k0 by blast
  have k1: "api_key ?down = Some (asc ''sk'')
      \<and> (\<exists>e. post ?down (asc ''sk'') (model ?down) (asc ''u'') = Inl e)"
    by (simp add: ex_env_def)
  have down: "ai_detect_foods_from_image_openrouter ?down (asc ''u'') = []"
    using ai_detect_items_clamped_or_empty [of ?down "asc ''u''"] k1 by blast
  have nl: "\<not> has_items_list (detect_parsed ?nada (asc ''sk'') (asc ''u''))"
    by (simp add: ai_detect_defs)
  have k2: "api_key ?nada = Some (asc ''sk'')"
    by (simp add: ex_env_def)
  have nada: "ai_detect_foods_from_image_openrouter ?nada (asc ''u'') = []"
    using ai_detect_items_clamped_or_empty [of ?nada "asc ''u''"] k2 nl by blast
  from run all nokey down nl nada show ?thesis by blast
qed

end
